theory Spec2Isabelle
  imports Complex_Main
begin

section \<open>The runner game of \<^verbatim>\<open>src/game.js\<close>\<close>

text \<open>
  The script keeps its whole state in closure variables and mutates them from one control
  flow (the frame callback and the synchronous input handlers). The model passes that
  state explicitly: every function of the script becomes a function from the state to the
  updated state.

  Numbers. A JavaScript number is an IEEE double. The finite ones are modelled by
  \<^typ>\<open>real\<close>, with exact arithmetic in place of rounding; the comparisons, clamps and
  assignments below are those of the source. The values that are not finite numbers
  (\<^verbatim>\<open>NaN\<close>, the infinities, \<^verbatim>\<open>undefined\<close>) are kept apart in the type \<open>jsnum\<close>,
  used exactly where the source tests for them with \<^verbatim>\<open>Number.isFinite\<close>.
\<close>

datatype jsnum = Num real | NaN | PosInf | NegInf | Undefined

fun Number_isFinite :: "jsnum \<Rightarrow> bool" where
  "Number_isFinite (Num r) = True"
| "Number_isFinite v = False"

definition Math_floor :: "real \<Rightarrow> real" where
  "Math_floor v = of_int \<lfloor>v\<rfloor>"

definition Math_round :: "real \<Rightarrow> real" where
  \<comment> \<open>\<^verbatim>\<open>Math.round\<close> rounds a half towards plus infinity.\<close>
  "Math_round v = of_int \<lfloor>v + 1 / 2\<rfloor>"

subsection \<open>Entities\<close>

text \<open>
  The objects \<^verbatim>\<open>{x, y, w, h}\<close>: the player, every obstacle and the box \<^verbatim>\<open>p\<close> built for the
  collision test all carry these four fields, so the player and the obstacle extend the
  record \<open>rect\<close>. The one-letter field names of the source get the prefix \<open>r\<close>
  (\<open>g\<close> for a glyph, \<open>s\<close> for a spark).
\<close>

record rect =
  rx :: real
  ry :: real
  rw :: real
  rh :: real

record player = rect +
  vy :: real
  onGround :: bool
  emojiIdle :: string
  emojiRun :: string
  emojiLose :: string
  fontPx :: real

record glyph =
  emoji :: string
  gsize :: real
  dx :: real
  gw :: real
  gh :: real

record obstacle = rect +
  glyphs :: "glyph list"

record spark =
  sx :: real
  sy :: real
  sr :: real
  spd :: real

subsection \<open>Collision test\<close>

definition rectsOverlap :: "'a rect_scheme \<Rightarrow> 'b rect_scheme \<Rightarrow> bool" where
  "rectsOverlap a b \<longleftrightarrow>
     rx a < rx b + rw b \<and> rx a + rw a > rx b \<and> ry a < ry b + rh b \<and> ry a + rh a > ry b"

subsection \<open>The jump command\<close>

definition jump :: "player \<Rightarrow> player" where
  "jump p = (if \<not> onGround p then p else p\<lparr>vy := - 460, onGround := False\<rparr>)"


subsection \<open>External collaborators\<close>

text \<open>
  What the script reads from the browser is collected in one record, fixed while the game
  runs: the reduced-motion preference, the viewport (\<^verbatim>\<open>canvas.clientWidth\<close>, the height of
  \<^verbatim>\<open>getBoundingClientRect\<close>, the height \<^verbatim>\<open>lastCssH\<close> left by \<^verbatim>\<open>fitCanvas\<close>), the text
  measurement of the canvas context (a function of the active font and the text), the
  values returned by successive calls of \<^verbatim>\<open>Math.random\<close>, and the two conversions
  \<^verbatim>\<open>String(number)\<close> and \<^verbatim>\<open>Number(string)\<close> of the language.
\<close>

record text_metrics =
  width :: real
  actualBoundingBoxAscent :: jsnum
  actualBoundingBoxDescent :: jsnum

record env =
  prefersReducedMotion :: bool
  clientWidth :: real
  rectHeight :: jsnum
  lastCssH :: real
  measureText :: "string \<Rightarrow> string \<Rightarrow> text_metrics"
  random :: "nat \<Rightarrow> real"
  String_of :: "real \<Rightarrow> string"
  Number_of :: "string \<Rightarrow> jsnum"

text \<open>
  \<^verbatim>\<open>localStorage\<close>: a key-value store whose calls may throw (storage disabled, quota
  exceeded). A throwing call is the value \<open>Inl StorageError\<close>.
\<close>

datatype error = StorageError

record storage =
  getItem_throws :: bool
  setItem_throws :: bool
  items :: "string \<Rightarrow> string option"

definition getItem :: "storage \<Rightarrow> string \<Rightarrow> error + string option" where
  "getItem st k = (if getItem_throws st then Inl StorageError else Inr (items st k))"

definition setItem :: "storage \<Rightarrow> string \<Rightarrow> string \<Rightarrow> error + storage" where
  "setItem st k v =
     (if setItem_throws st then Inl StorageError else Inr (st\<lparr>items := (items st)(k \<mapsto> v)\<rparr>))"

subsection \<open>Session state\<close>

text \<open>
  The closure variables of the script, together with the part of the outside world that
  the script writes: the active font of the canvas context, the number of calls of
  \<^verbatim>\<open>Math.random\<close> made so far, and the store. The variable \<^verbatim>\<open>last\<close> is named \<open>last_t\<close>.
  The texts written into the page by \<^verbatim>\<open>setText\<close> and the pixels painted by \<^verbatim>\<open>draw\<close> are
  never read back by the script and are left out.
\<close>

record game =
  player :: player
  obstacles :: "obstacle list"
  sparks :: "spark list"
  running :: bool
  started :: bool
  score :: real
  best :: real
  speed :: real
  spawnTimer :: real
  last_t :: real
  font :: string
  draws :: nat
  localStorage :: storage

definition EMOJI_FONT_STACK :: string where
  \<open>EMOJI_FONT_STACK =
     [CHR 0x22] @ ''Noto Color Emoji'' @ [CHR 0x22] @ '','' @
     [CHR 0x22] @ ''Apple Color Emoji'' @ [CHR 0x22] @ '','' @
     [CHR 0x22] @ ''Segoe UI Emoji'' @ [CHR 0x22] @ '','' @
     [CHR 0x22] @ ''Segoe UI Symbol'' @ [CHR 0x22] @ '',sans-serif''\<close>

text \<open>The four emoji, as their UTF-8 bytes.\<close>

definition PLAYER_EMOJI_IDLE :: string where
  "PLAYER_EMOJI_IDLE = [CHR 0xF0, CHR 0x9F, CHR 0x99, CHR 0x82]"

definition PLAYER_EMOJI_RUN :: string where
  "PLAYER_EMOJI_RUN = [CHR 0xF0, CHR 0x9F, CHR 0x98, CHR 0x84]"

definition PLAYER_EMOJI_LOSE :: string where
  "PLAYER_EMOJI_LOSE = [CHR 0xF0, CHR 0x9F, CHR 0x98, CHR 0x9E]"

definition CACTUS_EMOJI :: string where
  "CACTUS_EMOJI = [CHR 0xF0, CHR 0x9F, CHR 0x8C, CHR 0xB5]"

definition storageKey :: string where
  "storageKey = ''sd_runner_best''"

definition groundPad :: real where
  "groundPad = 22"

subsection \<open>Glyph metrics\<close>

text \<open>
  \<^verbatim>\<open>measureEmoji\<close> assigns the font of the context twice; the model takes the active font
  and returns the metrics with the font the context is left with. The width test
  \<^verbatim>\<open>m.width || fontPx\<close> takes \<^verbatim>\<open>fontPx\<close> when the width is zero.
\<close>

record emoji_metrics =
  m_w :: real
  m_h :: real
  m_ascent :: real
  m_descent :: real

definition measureEmoji :: "env \<Rightarrow> string \<Rightarrow> real \<Rightarrow> string \<Rightarrow> emoji_metrics \<times> string" where
  "measureEmoji env emo px ctx_font =
     (let prevFont = ctx_font;
          font1 = String_of env px @ ''px '' @ EMOJI_FONT_STACK;
          m = measureText env font1 emo;
          font2 = prevFont;
          ascent = (case actualBoundingBoxAscent m of Num a \<Rightarrow> a | _ \<Rightarrow> px * 0.78);
          descent = (case actualBoundingBoxDescent m of Num d \<Rightarrow> d | _ \<Rightarrow> px * 0.22);
          w = max 1 (if width m = 0 then px else width m);
          h = max 1 (ascent + descent)
      in (\<lparr>m_w = w, m_h = h, m_ascent = ascent, m_descent = descent\<rparr>, font2))"

subsection \<open>Viewport\<close>

definition world_w :: "env \<Rightarrow> real" where
  "world_w env = (if clientWidth env = 0 then 640 else clientWidth env)"

definition world_h :: "env \<Rightarrow> real" where
  "world_h env =
     (case rectHeight env of
        Num r \<Rightarrow> if r > 0 then r else (if lastCssH env = 0 then 200 else lastCssH env)
      | _ \<Rightarrow> (if lastCssH env = 0 then 200 else lastCssH env))"

definition groundY :: "env \<Rightarrow> real" where
  "groundY env = world_h env - groundPad"

subsection \<open>Startup and reset\<close>

definition player0 :: player where
  "player0 = \<lparr>rx = 46, ry = 0, rw = 22, rh = 28, vy = 0, onGround = False,
     emojiIdle = PLAYER_EMOJI_IDLE, emojiRun = PLAYER_EMOJI_RUN, emojiLose = PLAYER_EMOJI_LOSE,
     fontPx = 30\<rparr>"

text \<open>
  \<^verbatim>\<open>Number(localStorage.getItem(storageKey))\<close>: \<^verbatim>\<open>getItem\<close> returns \<^verbatim>\<open>null\<close> for a missing
  key and \<^verbatim>\<open>Number(null)\<close> is \<open>0\<close>; a string is converted by the language.
\<close>

definition Number_conv :: "env \<Rightarrow> string option \<Rightarrow> jsnum" where
  "Number_conv env v = (case v of None \<Rightarrow> Num 0 | Some str \<Rightarrow> Number_of env str)"

definition load_best :: "env \<Rightarrow> storage \<Rightarrow> real" where
  "load_best env st =
     (case getItem st storageKey of
        Inl e \<Rightarrow> 0
      | Inr item \<Rightarrow>
          (let v = Number_conv env item
           in if Number_isFinite v then (case v of Num r \<Rightarrow> r | _ \<Rightarrow> 0) else 0))"

definition reset :: "env \<Rightarrow> game \<Rightarrow> game" where
  "reset env s =
     (let p = player s;
          (mIdle, f1) = measureEmoji env (emojiIdle p) (fontPx p) (font s);
          (mRun, f2) = measureEmoji env (emojiRun p) (fontPx p) f1;
          (mLose, f3) = measureEmoji env (emojiLose p) (fontPx p) f2;
          maxW = max (max (m_w mIdle) (m_w mRun)) (m_w mLose);
          maxH = max (max (m_h mIdle) (m_h mRun)) (m_h mLose);
          pw = max 18 (maxW * 0.92);
          ph = max 22 (maxH * 0.92)
      in s\<lparr>obstacles := [], sparks := [], running := True, started := False, score := 0,
            speed := 260, spawnTimer := 0, font := f3,
            player := p\<lparr>rw := pw, rh := ph, vy := 0, onGround := True,
                         ry := groundY env - ph\<rparr>\<rparr>)"

text \<open>
  The startup of the script: the initial values of the variables, the best score read
  from the store, then \<^verbatim>\<open>reset\<close>. The arguments are the store, the time of
  \<^verbatim>\<open>performance.now()\<close> and the font of the fresh context.
\<close>

definition init :: "env \<Rightarrow> storage \<Rightarrow> real \<Rightarrow> string \<Rightarrow> game" where
  "init env st now ctx_font =
     reset env \<lparr>player = player0, obstacles = [], sparks = [], running = True, started = False,
       score = 0, best = load_best env st, speed = 260, spawnTimer = 0, last_t = now,
       font = ctx_font, draws = 0, localStorage = st\<rparr>"

subsection \<open>Particles\<close>

text \<open>
  The loop of \<^verbatim>\<open>addSpark\<close> runs \<open>c\<close> times; each round draws two random numbers, the
  radius first.
\<close>

fun spark_loop :: "env \<Rightarrow> real \<Rightarrow> real \<Rightarrow> nat \<Rightarrow> game \<Rightarrow> game" where
  "spark_loop env x y 0 s = s"
| "spark_loop env x y (Suc n) s =
     spark_loop env x y n
       (s\<lparr>sparks := sparks s @
             [\<lparr>sx = x, sy = y, sr = 1.5 + random env (draws s) * 2.2,
               spd = 120 + random env (Suc (draws s)) * 200\<rparr>],
           draws := draws s + 2\<rparr>)"

definition addSpark :: "env \<Rightarrow> real \<Rightarrow> real \<Rightarrow> nat \<Rightarrow> game \<Rightarrow> game" where
  "addSpark env x y count s =
     (if prefersReducedMotion env then s
      else let c = max 6 (min 16 count) in spark_loop env x y c s)"

subsection \<open>Obstacle spawner\<close>

text \<open>
  The loop over the glyphs of a cluster carries the list built so far, the offset
  \<^verbatim>\<open>dx\<close>, the height \<^verbatim>\<open>maxH\<close>, the font of the context and the number of random draws.
\<close>

fun glyph_loop ::
  "env \<Rightarrow> real \<Rightarrow> real \<Rightarrow> nat \<Rightarrow> glyph list \<times> real \<times> real \<times> string \<times> nat
     \<Rightarrow> glyph list \<times> real \<times> real \<times> string \<times> nat" where
  "glyph_loop env base gap 0 acc = acc"
| "glyph_loop env base gap (Suc n) (gs, dx0, maxH, f, k) =
     (let size = max 18 (Math_round (base + (random env k * 10 - 5)));
          (m, f') = measureEmoji env CACTUS_EMOJI size f;
          w = max 10 (m_w m);
          h = max 14 (m_h m)
      in glyph_loop env base gap n
           (gs @ [\<lparr>emoji = CACTUS_EMOJI, gsize = size, dx = dx0, gw = w, gh = h\<rparr>],
            dx0 + (w + gap), max maxH h, f', Suc k))"

definition spawnObstacle :: "env \<Rightarrow> game \<Rightarrow> game" where
  "spawnObstacle env s =
     (let k = draws s;
          count = 1 + \<lfloor>random env k * 3\<rfloor>;
          base = 20 + Math_floor (random env (k + 1) * 14);
          gap = 2 + Math_floor (random env (k + 2) * 3);
          (gs, dx1, maxH, f, k') = glyph_loop env base gap (nat count) ([], 0, 0, font s, k + 3);
          w = max 14 (dx1 - gap);
          h = max 16 maxH;
          y = groundY env - h
      in s\<lparr>obstacles := obstacles s @ [\<lparr>rx = world_w env + 10, ry = y, rw = w, rh = h, glyphs = gs\<rparr>],
            font := f, draws := k'\<rparr>)"

subsection \<open>Simulation step\<close>

text \<open>
  \<^verbatim>\<open>update\<close> is the sequence of the blocks of the source, each named after its comment
  there.
\<close>

definition difficulty_curve :: "real \<Rightarrow> real" where
  "difficulty_curve sc = min 520 (260 + sc * 0.9)"

definition gravity :: "env \<Rightarrow> real \<Rightarrow> game \<Rightarrow> game" where
  "gravity env dt s =
     (let g = 1200;
          p1 = (player s)\<lparr>vy := vy (player s) + g * dt\<rparr>;
          p2 = p1\<lparr>ry := ry p1 + vy p1 * dt\<rparr>;
          gy = groundY env;
          p3 = (if ry p2 + rh p2 \<ge> gy
                then p2\<lparr>ry := gy - rh p2, vy := 0, onGround := True\<rparr> else p2)
      in s\<lparr>player := p3\<rparr>)"

definition spawn_pacing :: "env \<Rightarrow> real \<Rightarrow> game \<Rightarrow> game" where
  "spawn_pacing env dt s =
     (let s1 = s\<lparr>spawnTimer := spawnTimer s - dt\<rparr>
      in if spawnTimer s1 \<le> 0
         then (let s2 = spawnObstacle env s1;
                   minGap = 0.75;
                   maxGap = 1.35
               in s2\<lparr>spawnTimer := minGap + random env (draws s2) * (maxGap - minGap)
                                      + max 0 ((520 - speed s2) / 900),
                      draws := Suc (draws s2)\<rparr>)
         else s1)"

definition move_obstacles :: "real \<Rightarrow> game \<Rightarrow> game" where
  "move_obstacles dt s =
     s\<lparr>obstacles := filter (\<lambda>ob. rx ob + rw ob > - 30)
                       (map (\<lambda>ob. ob\<lparr>rx := rx ob - speed s * dt\<rparr>) (obstacles s))\<rparr>"

definition drift_spark :: "real \<Rightarrow> real \<Rightarrow> spark \<Rightarrow> spark" where
  "drift_spark v dt sp =
     (let s1 = sp\<lparr>sx := sx sp - (v + spd sp) * dt\<rparr>;
          s2 = s1\<lparr>sy := sy s1 + (sin (sx s1 * 0.02) * 10 + 8) * dt\<rparr>
      in s2\<lparr>sr := sr s2 * (1 - 1.8 * dt)\<rparr>)"

definition sparks_drift :: "real \<Rightarrow> game \<Rightarrow> game" where
  "sparks_drift dt s =
     s\<lparr>sparks := filter (\<lambda>sp. sr sp > 0.25) (map (drift_spark (speed s) dt) (sparks s))\<rparr>"

definition add_score :: "real \<Rightarrow> game \<Rightarrow> game" where
  "add_score dt s = s\<lparr>score := score s + dt * 60\<rparr>"

text \<open>The body of the \<^verbatim>\<open>if\<close> in the collision loop; the \<^verbatim>\<open>catch\<close> ignores a failed write.\<close>

definition on_collision :: "env \<Rightarrow> game \<Rightarrow> game" where
  "on_collision env s =
     (let s1 = s\<lparr>running := False\<rparr>;
          p = player s1;
          s2 = addSpark env (rx p + rw p) (ry p + rh p - 6) 14 s1
      in if Math_floor (score s2) > best s2
         then (let s3 = s2\<lparr>best := Math_floor (score s2)\<rparr>
               in case setItem (localStorage s3) storageKey (String_of env (best s3)) of
                    Inl e \<Rightarrow> s3
                  | Inr st \<Rightarrow> s3\<lparr>localStorage := st\<rparr>)
         else s2)"

text \<open>The loop over the obstacles, left by \<^verbatim>\<open>break\<close> at the first overlap.\<close>

fun collide :: "env \<Rightarrow> rect \<Rightarrow> obstacle list \<Rightarrow> game \<Rightarrow> game" where
  "collide env p [] s = s"
| "collide env p (ob # os) s =
     (if rectsOverlap p ob then on_collision env s else collide env p os s)"

definition collision :: "env \<Rightarrow> game \<Rightarrow> game" where
  "collision env s =
     (let pl = player s;
          p = \<lparr>rx = rx pl, ry = ry pl, rw = rw pl, rh = rh pl\<rparr>
      in collide env p (obstacles s) s)"

definition update :: "env \<Rightarrow> real \<Rightarrow> game \<Rightarrow> game" where
  "update env dt s =
     (if \<not> started s
      then s\<lparr>player := (player s)\<lparr>onGround := True, ry := groundY env - rh (player s)\<rparr>\<rparr>
      else let s1 = s\<lparr>speed := difficulty_curve (score s)\<rparr>;
               s2 = gravity env dt s1;
               s3 = spawn_pacing env dt s2;
               s4 = move_obstacles dt s3;
               s5 = sparks_drift dt s4;
               s6 = add_score dt s5
           in collision env s6)"

subsection \<open>Game loop\<close>

text \<open>
  Of \<^verbatim>\<open>draw\<close> only its effect on the context survives the call: the font it sets for the
  hint text outside of any \<^verbatim>\<open>save\<close>/\<^verbatim>\<open>restore\<close> pair.
\<close>

definition draw :: "game \<Rightarrow> game" where
  "draw s = s\<lparr>font := ''12px Vazirmatn, system-ui, sans-serif''\<rparr>"

definition frame_dt :: "real \<Rightarrow> real \<Rightarrow> real" where
  "frame_dt now lst = min 0.033 (max 0 ((now - lst) / 1000))"

definition loop :: "env \<Rightarrow> real \<Rightarrow> game \<Rightarrow> game" where
  "loop env now s =
     (let dt = frame_dt now (last_t s);
          s1 = s\<lparr>last_t := now\<rparr>;
          s2 = (if running s1 then update env dt s1 else s1)
      in draw s2)"

subsection \<open>Input\<close>

definition start :: "game \<Rightarrow> game" where
  "start s = (if \<not> started s then s\<lparr>started := True\<rparr> else s)"

definition restart :: "env \<Rightarrow> game \<Rightarrow> game" where
  "restart env s = (reset env s)\<lparr>started := True\<rparr>"

definition onJumpIntent :: "game \<Rightarrow> game" where
  "onJumpIntent s =
     (let s1 = start s
      in if \<not> running s1 then s1 else s1\<lparr>player := jump (player s1)\<rparr>)"

definition keydown :: "env \<Rightarrow> string \<Rightarrow> game \<Rightarrow> game" where
  "keydown env k s =
     (let s1 = (if k = '' '' \<or> k = ''ArrowUp'' \<or> k = ''w'' \<or> k = ''W'' then onJumpIntent s else s)
      in if k = ''r'' \<or> k = ''R'' then restart env s1 else s1)"

definition pointerdown :: "env \<Rightarrow> game \<Rightarrow> game" where
  "pointerdown env s =
     (if \<not> started s then s\<lparr>started := True\<rparr>
      else if \<not> running s then restart env s
      else onJumpIntent s)"

definition visibilitychange :: "real \<Rightarrow> game \<Rightarrow> game" where
  "visibilitychange now s = s\<lparr>last_t := now\<rparr>"

text \<open>
  The resize handler, for a viewport that \<^verbatim>\<open>fitCanvas\<close> has already brought up to date
  in \<open>env\<close>.
\<close>

definition resize :: "env \<Rightarrow> game \<Rightarrow> game" where
  "resize env s = s\<lparr>player := (player s)\<lparr>ry := groundY env - rh (player s)\<rparr>\<rparr>"

text \<open>
  Everything that can happen to a session after startup: a display frame at a time stamp,
  a key, a tap on the canvas, the restart button, a visibility change at a time, a resize.
\<close>

datatype event =
  Frame real | KeyDown string | PointerDown | RestartClick | VisibilityChange real | Resize

fun handle :: "env \<Rightarrow> event \<Rightarrow> game \<Rightarrow> game" where
  "handle env (Frame now) s = loop env now s"
| "handle env (KeyDown k) s = keydown env k s"
| "handle env PointerDown s = pointerdown env s"
| "handle env RestartClick s = restart env s"
| "handle env (VisibilityChange now) s = visibilitychange now s"
| "handle env Resize s = resize env s"


subsection \<open>A sample environment and session\<close>

text \<open>
  Concrete values on which the model is evaluated: an environment with a 640 by 200
  viewport, a text measurement that reports no descent, a random source that always
  returns one half, and conversions that cover unsigned decimal literals; a store holding
  a best score of 40, and a store that refuses every call; a running session in which an
  obstacle stands two pixels ahead of the player.
\<close>

definition Number_decimal :: "string \<Rightarrow> jsnum" where
  "Number_decimal str =
     (if str = [] then Num 0
      else if list_all (\<lambda>c. c \<in> set ''0123456789'') str
      then Num (of_nat (foldl (\<lambda>n c. 10 * n + (of_char c - 48)) 0 str))
      else NaN)"

fun String_decimal :: "nat \<Rightarrow> string" where
  "String_decimal n =
     (if n < 10 then [char_of (48 + n)]
      else String_decimal (n div 10) @ [char_of (48 + n mod 10)])"

declare String_decimal.simps [simp del]

definition env0 :: env where
  "env0 = \<lparr>prefersReducedMotion = False, clientWidth = 640, rectHeight = Num 200, lastCssH = 200,
     measureText = (\<lambda>f t. \<lparr>width = 20, actualBoundingBoxAscent = Num 16,
                            actualBoundingBoxDescent = Undefined\<rparr>),
     random = (\<lambda>n. 1 / 2),
     String_of = (\<lambda>r. String_decimal (nat \<lfloor>r\<rfloor>)),
     Number_of = Number_decimal\<rparr>"

definition storage0 :: storage where
  "storage0 = \<lparr>getItem_throws = False, setItem_throws = False,
     items = [storageKey \<mapsto> ''40'']\<rparr>"

definition game1 :: game where
  "game1 = \<lparr>player = player0\<lparr>ry := 150, onGround := True\<rparr>,
     obstacles = [\<lparr>rx = 70, ry = 150, rw = 20, rh = 28, glyphs = []\<rparr>],
     sparks = [], running = True, started = True, score = 100.5, best = 40, speed = 260,
     spawnTimer = 0.5, last_t = 0, font = ''10px sans-serif'', draws = 0,
     localStorage = storage0\<rparr>"

definition storage_denied :: storage where
  "storage_denied = \<lparr>getItem_throws = True, setItem_throws = True, items = Map.empty\<rparr>"

section \<open>Auxiliary facts\<close>

text \<open>
  For every block of the simulation step: the fields it leaves alone and the value of the
  fields it writes. With these, a field of the state after \<open>update\<close> is computed block by
  block instead of unfolding the whole step.
\<close>

lemma spark_loop_frame:
  "player (spark_loop env x y n s) = player s
   \<and> obstacles (spark_loop env x y n s) = obstacles s
   \<and> running (spark_loop env x y n s) = running s
   \<and> started (spark_loop env x y n s) = started s
   \<and> score (spark_loop env x y n s) = score s
   \<and> best (spark_loop env x y n s) = best s
   \<and> speed (spark_loop env x y n s) = speed s
   \<and> spawnTimer (spark_loop env x y n s) = spawnTimer s
   \<and> last_t (spark_loop env x y n s) = last_t s
   \<and> font (spark_loop env x y n s) = font s
   \<and> localStorage (spark_loop env x y n s) = localStorage s"
  by (induction n arbitrary: s) simp_all

lemma addSpark_frame:
  "player (addSpark env x y c s) = player s
   \<and> obstacles (addSpark env x y c s) = obstacles s
   \<and> running (addSpark env x y c s) = running s
   \<and> started (addSpark env x y c s) = started s
   \<and> score (addSpark env x y c s) = score s
   \<and> best (addSpark env x y c s) = best s
   \<and> speed (addSpark env x y c s) = speed s
   \<and> spawnTimer (addSpark env x y c s) = spawnTimer s
   \<and> last_t (addSpark env x y c s) = last_t s
   \<and> font (addSpark env x y c s) = font s
   \<and> localStorage (addSpark env x y c s) = localStorage s"
  by (simp add: addSpark_def spark_loop_frame)

lemma on_collision_frame:
  "player (on_collision env s) = player s
   \<and> obstacles (on_collision env s) = obstacles s
   \<and> running (on_collision env s) = False
   \<and> started (on_collision env s) = started s
   \<and> score (on_collision env s) = score s
   \<and> speed (on_collision env s) = speed s
   \<and> spawnTimer (on_collision env s) = spawnTimer s
   \<and> last_t (on_collision env s) = last_t s
   \<and> font (on_collision env s) = font s"
  by (simp add: on_collision_def Let_def addSpark_frame split: sum.splits)

lemma collide_eq:
  "collide env p os s = (if \<exists>ob\<in>set os. rectsOverlap p ob then on_collision env s else s)"
  by (induction os) simp_all

lemma measureEmoji_font: "snd (measureEmoji env e px f) = f"
  by (simp add: measureEmoji_def Let_def)

lemma glyph_loop_font_draws:
  "fst (snd (snd (snd (glyph_loop env base gap n (gs, d, mh, f, k))))) = f
   \<and> snd (snd (snd (snd (glyph_loop env base gap n (gs, d, mh, f, k))))) = k + n"
proof (induction n arbitrary: gs d mh f k)
  case 0
  show ?case by simp
next
  case (Suc n)
  obtain m f' where mf: "measureEmoji env CACTUS_EMOJI
      (max 18 (Math_round (base + (random env k * 10 - 5)))) f = (m, f')"
    by (cases "measureEmoji env CACTUS_EMOJI
      (max 18 (Math_round (base + (random env k * 10 - 5)))) f")
  have "f' = f" using measureEmoji_font [of env CACTUS_EMOJI _ f] mf by (metis snd_conv)
  then show ?case using Suc mf by (simp add: Let_def)
qed

lemma spawnObstacle_frame:
  "player (spawnObstacle env s) = player s
   \<and> sparks (spawnObstacle env s) = sparks s
   \<and> running (spawnObstacle env s) = running s
   \<and> started (spawnObstacle env s) = started s
   \<and> score (spawnObstacle env s) = score s
   \<and> best (spawnObstacle env s) = best s
   \<and> speed (spawnObstacle env s) = speed s
   \<and> spawnTimer (spawnObstacle env s) = spawnTimer s
   \<and> last_t (spawnObstacle env s) = last_t s
   \<and> localStorage (spawnObstacle env s) = localStorage s"
  by (simp add: spawnObstacle_def Let_def split: prod.splits)

lemma spawnObstacle_font_draws:
  "font (spawnObstacle env s) = font s
   \<and> draws (spawnObstacle env s) = draws s + 3 + nat (1 + \<lfloor>random env (draws s) * 3\<rfloor>)"
  using glyph_loop_font_draws [of env "20 + Math_floor (random env (draws s + 1) * 14)"
      "2 + Math_floor (random env (draws s + 2) * 3)" "nat (1 + \<lfloor>random env (draws s) * 3\<rfloor>)"
      "[]" 0 0 "font s" "draws s + 3"]
  by (simp add: spawnObstacle_def Let_def case_prod_beta)

lemma spawnObstacle_obstacles:
  "\<exists>ob. obstacles (spawnObstacle env s) = obstacles s @ [ob]
     \<and> rx ob = world_w env + 10 \<and> 14 \<le> rw ob \<and> 16 \<le> rh ob \<and> ry ob = groundY env - rh ob"
  by (simp add: spawnObstacle_def Let_def split: prod.splits)

lemma collision_eq:
  "collision env s =
     (if \<exists>ob\<in>set (obstacles s). rectsOverlap (player s) ob then on_collision env s else s)"
  by (simp add: collision_def Let_def collide_eq rectsOverlap_def)

lemma gravity_frame:
  "obstacles (gravity env dt s) = obstacles s
   \<and> sparks (gravity env dt s) = sparks s
   \<and> running (gravity env dt s) = running s
   \<and> started (gravity env dt s) = started s
   \<and> score (gravity env dt s) = score s
   \<and> best (gravity env dt s) = best s
   \<and> speed (gravity env dt s) = speed s
   \<and> spawnTimer (gravity env dt s) = spawnTimer s
   \<and> last_t (gravity env dt s) = last_t s
   \<and> font (gravity env dt s) = font s
   \<and> draws (gravity env dt s) = draws s
   \<and> localStorage (gravity env dt s) = localStorage s"
  by (simp add: gravity_def Let_def)

lemma gravity_player:
  "rx (player (gravity env dt s)) = rx (player s)
   \<and> rw (player (gravity env dt s)) = rw (player s)
   \<and> rh (player (gravity env dt s)) = rh (player s)"
  by (simp add: gravity_def Let_def)

lemma spawn_pacing_frame:
  "player (spawn_pacing env dt s) = player s
   \<and> sparks (spawn_pacing env dt s) = sparks s
   \<and> running (spawn_pacing env dt s) = running s
   \<and> started (spawn_pacing env dt s) = started s
   \<and> score (spawn_pacing env dt s) = score s
   \<and> best (spawn_pacing env dt s) = best s
   \<and> speed (spawn_pacing env dt s) = speed s
   \<and> last_t (spawn_pacing env dt s) = last_t s
   \<and> font (spawn_pacing env dt s) = font s
   \<and> localStorage (spawn_pacing env dt s) = localStorage s"
  by (simp add: spawn_pacing_def Let_def spawnObstacle_frame spawnObstacle_font_draws)

lemma spawn_pacing_timer:
  "spawnTimer (spawn_pacing env dt s) =
     (if spawnTimer s - dt \<le> 0
      then 0.75 + random env (draws s + 3 + nat (1 + \<lfloor>random env (draws s) * 3\<rfloor>)) * (1.35 - 0.75)
           + max 0 ((520 - speed s) / 900)
      else spawnTimer s - dt)"
  by (simp add: spawn_pacing_def Let_def spawnObstacle_frame spawnObstacle_font_draws)

lemma spawn_pacing_obstacles:
  "obstacles (spawn_pacing env dt s) =
     (if spawnTimer s - dt \<le> 0
      then obstacles (spawnObstacle env (s\<lparr>spawnTimer := spawnTimer s - dt\<rparr>))
      else obstacles s)"
  by (simp add: spawn_pacing_def Let_def)

lemma move_obstacles_frame:
  "player (move_obstacles dt s) = player s
   \<and> sparks (move_obstacles dt s) = sparks s
   \<and> running (move_obstacles dt s) = running s
   \<and> started (move_obstacles dt s) = started s
   \<and> score (move_obstacles dt s) = score s
   \<and> best (move_obstacles dt s) = best s
   \<and> speed (move_obstacles dt s) = speed s
   \<and> spawnTimer (move_obstacles dt s) = spawnTimer s
   \<and> last_t (move_obstacles dt s) = last_t s
   \<and> font (move_obstacles dt s) = font s
   \<and> draws (move_obstacles dt s) = draws s
   \<and> localStorage (move_obstacles dt s) = localStorage s"
  by (simp add: move_obstacles_def)

lemma sparks_drift_frame:
  "player (sparks_drift dt s) = player s
   \<and> obstacles (sparks_drift dt s) = obstacles s
   \<and> running (sparks_drift dt s) = running s
   \<and> started (sparks_drift dt s) = started s
   \<and> score (sparks_drift dt s) = score s
   \<and> best (sparks_drift dt s) = best s
   \<and> speed (sparks_drift dt s) = speed s
   \<and> spawnTimer (sparks_drift dt s) = spawnTimer s
   \<and> last_t (sparks_drift dt s) = last_t s
   \<and> font (sparks_drift dt s) = font s
   \<and> draws (sparks_drift dt s) = draws s
   \<and> localStorage (sparks_drift dt s) = localStorage s"
  by (simp add: sparks_drift_def)

lemma add_score_frame:
  "player (add_score dt s) = player s
   \<and> obstacles (add_score dt s) = obstacles s
   \<and> sparks (add_score dt s) = sparks s
   \<and> running (add_score dt s) = running s
   \<and> started (add_score dt s) = started s
   \<and> best (add_score dt s) = best s
   \<and> speed (add_score dt s) = speed s
   \<and> spawnTimer (add_score dt s) = spawnTimer s
   \<and> last_t (add_score dt s) = last_t s
   \<and> font (add_score dt s) = font s
   \<and> draws (add_score dt s) = draws s
   \<and> localStorage (add_score dt s) = localStorage s"
  by (simp add: add_score_def)

lemmas frames = gravity_frame spawn_pacing_frame move_obstacles_frame sparks_drift_frame
  add_score_frame on_collision_frame

lemma update_started:
  "started s \<Longrightarrow> update env dt s =
     collision env (add_score dt (sparks_drift dt (move_obstacles dt
       (spawn_pacing env dt (gravity env dt (s\<lparr>speed := difficulty_curve (score s)\<rparr>))))))"
  by (simp add: update_def Let_def)

lemma update_speed: "started s \<Longrightarrow> speed (update env dt s) = difficulty_curve (score s)"
  by (simp add: update_started collision_eq frames)

lemma update_score: "started s \<Longrightarrow> score (update env dt s) = score s + dt * 60"
  by (simp add: update_started collision_eq frames add_score_def)

lemma update_spawnTimer:
  "started s \<Longrightarrow> spawnTimer (update env dt s) =
     (if spawnTimer s - dt \<le> 0
      then 0.75 + random env (draws s + 3 + nat (1 + \<lfloor>random env (draws s) * 3\<rfloor>)) * (1.35 - 0.75)
           + max 0 ((520 - difficulty_curve (score s)) / 900)
      else spawnTimer s - dt)"
  by (simp add: update_started collision_eq frames spawn_pacing_timer)

lemma update_player_box:
  "rx (player (update env dt s)) = rx (player s)
   \<and> rw (player (update env dt s)) = rw (player s)
   \<and> rh (player (update env dt s)) = rh (player s)"
proof (cases "started s")
  case True
  then show ?thesis by (simp add: update_started collision_eq frames gravity_player)
next
  case False
  then show ?thesis by (simp add: update_def)
qed

lemma update_not_started:
  "\<not> started s \<Longrightarrow> score (update env dt s) = score s \<and> spawnTimer (update env dt s) = spawnTimer s
     \<and> localStorage (update env dt s) = localStorage s \<and> running (update env dt s) = running s"
  by (simp add: update_def)


lemma update_obstacles:
  "started s \<Longrightarrow> obstacles (update env dt s) =
     filter (\<lambda>ob. rx ob + rw ob > - 30)
       (map (\<lambda>ob. ob\<lparr>rx := rx ob - difficulty_curve (score s) * dt\<rparr>)
         (if spawnTimer s - dt \<le> 0
          then obstacles (spawnObstacle env
                 ((gravity env dt (s\<lparr>speed := difficulty_curve (score s)\<rparr>))
                    \<lparr>spawnTimer := spawnTimer s - dt\<rparr>))
          else obstacles s))"
  by (simp add: update_started collision_eq frames spawn_pacing_obstacles move_obstacles_def
      sparks_drift_def add_score_def)

lemma loop_running:
  "running s \<Longrightarrow> loop env now s = draw (update env (frame_dt now (last_t s)) (s\<lparr>last_t := now\<rparr>))"
  by (simp add: loop_def Let_def)

lemma frame_dt_bounds: "0 \<le> frame_dt now lst \<and> frame_dt now lst \<le> 0.033"
  by (simp add: frame_dt_def)

lemma displacement_bound:
  fixes v dt :: real
  assumes "v \<le> 520" "0 \<le> dt" "dt \<le> 0.033"
  shows "v * dt \<le> 17.16"
proof -
  have "v * dt \<le> 520 * dt" using assms by (simp add: mult_right_mono)
  also have "\<dots> \<le> 520 * 0.033" using assms by simp
  finally show ?thesis by simp
qed

lemma reset_fields:
  "obstacles (reset env s) = [] \<and> sparks (reset env s) = [] \<and> running (reset env s)
   \<and> \<not> started (reset env s) \<and> score (reset env s) = 0 \<and> speed (reset env s) = 260
   \<and> spawnTimer (reset env s) = 0 \<and> best (reset env s) = best s
   \<and> last_t (reset env s) = last_t s \<and> draws (reset env s) = draws s
   \<and> localStorage (reset env s) = localStorage s"
  by (simp add: reset_def Let_def case_prod_beta)

lemma reset_font: "font (reset env s) = font s"
  by (simp add: reset_def Let_def case_prod_beta measureEmoji_font)

lemma reset_player:
  "ry (player (reset env s)) = groundY env - rh (player (reset env s))
   \<and> vy (player (reset env s)) = 0 \<and> onGround (player (reset env s))
   \<and> rx (player (reset env s)) = rx (player s)
   \<and> 18 \<le> rw (player (reset env s)) \<and> 22 \<le> rh (player (reset env s))"
  by (simp add: reset_def Let_def case_prod_beta)

lemma spark_loop_sparks:
  "\<exists>b. sparks (spark_loop env x y n s) = sparks s @ b \<and> length b = n
     \<and> (\<forall>sp\<in>set b. sx sp = x \<and> sy sp = y)"
proof (induction n arbitrary: s)
  case 0
  show ?case by simp
next
  case (Suc n)
  let ?new = "\<lparr>sx = x, sy = y, sr = 1.5 + random env (draws s) * 2.2,
               spd = 120 + random env (Suc (draws s)) * 200\<rparr>"
  let ?s = "s\<lparr>sparks := sparks s @ [?new], draws := draws s + 2\<rparr>"
  from Suc [of ?s] obtain b where
    b: "sparks (spark_loop env x y n ?s) = sparks ?s @ b" "length b = n"
       "\<forall>sp\<in>set b. sx sp = x \<and> sy sp = y"
    by blast
  have "sparks (spark_loop env x y (Suc n) s) = sparks s @ (?new # b)"
    using b(1) by simp
  moreover have "length (?new # b) = Suc n" using b(2) by simp
  moreover have "\<forall>sp\<in>set (?new # b). sx sp = x \<and> sy sp = y" using b(3) by simp
  ultimately show ?case by blast
qed

lemma addSpark_sparks:
  "\<exists>b. sparks (addSpark env x y 14 s) = sparks s @ b
     \<and> length b = (if prefersReducedMotion env then 0 else 14)
     \<and> (\<forall>sp\<in>set b. sx sp = x \<and> sy sp = y)"
proof (cases "prefersReducedMotion env")
  case True
  then show ?thesis by (simp add: addSpark_def)
next
  case False
  then show ?thesis using spark_loop_sparks [of env x y 14 s] by (simp add: addSpark_def)
qed

lemma on_collision_best:
  "best (on_collision env s)
     = (if Math_floor (score s) > best s then Math_floor (score s) else best s)"
  by (simp add: on_collision_def Let_def addSpark_frame split: sum.splits)

lemma on_collision_storage:
  "localStorage (on_collision env s)
     = (if Math_floor (score s) > best s \<and> \<not> setItem_throws (localStorage s)
        then (localStorage s)\<lparr>items := (items (localStorage s))
               (storageKey \<mapsto> String_of env (Math_floor (score s)))\<rparr>
        else localStorage s)"
  by (simp add: on_collision_def Let_def addSpark_frame setItem_def split: sum.splits)

lemma on_collision_sparks:
  "sparks (on_collision env s)
     = sparks (addSpark env (rx (player s) + rw (player s)) (ry (player s) + rh (player s) - 6) 14
         (s\<lparr>running := False\<rparr>))"
  by (simp add: on_collision_def Let_def split: sum.splits)

lemma update_outcome:
  fixes env :: env and dt :: real and s :: game
  assumes st: "started s"
  defines "s' \<equiv> update env dt s"
  defines "hit \<equiv> \<exists>ob\<in>set (obstacles s'). rectsOverlap (player s') ob"
  defines "old \<equiv> filter (\<lambda>sp. sr sp > 0.25) (map (drift_spark (speed s') dt) (sparks s))"
  shows "running s' = (if hit then False else running s)"
    and "best s' = (if hit \<and> Math_floor (score s') > best s then Math_floor (score s') else best s)"
    and "localStorage s' =
          (if hit \<and> Math_floor (score s') > best s \<and> \<not> setItem_throws (localStorage s)
           then (localStorage s)\<lparr>items := (items (localStorage s))
                  (storageKey \<mapsto> String_of env (Math_floor (score s')))\<rparr>
           else localStorage s)"
    and "\<exists>b. sparks s' = old @ b
           \<and> length b = (if hit \<and> \<not> prefersReducedMotion env then 14 else 0)
           \<and> (\<forall>sp\<in>set b. sx sp = rx (player s') + rw (player s')
                          \<and> sy sp = ry (player s') + rh (player s') - 6)"
proof -
  define pre where "pre = add_score dt (sparks_drift dt (move_obstacles dt
       (spawn_pacing env dt (gravity env dt (s\<lparr>speed := difficulty_curve (score s)\<rparr>)))))"
  have upd: "s' = collision env pre"
    using st by (simp add: s'_def pre_def update_started)
  have pre_fields: "running pre = running s" "best pre = best s"
    "localStorage pre = localStorage s" "speed pre = difficulty_curve (score s)"
    by (simp_all add: pre_def frames)
  have pre_sparks: "sparks pre = filter (\<lambda>sp. sr sp > 0.25)
      (map (drift_spark (difficulty_curve (score s)) dt) (sparks s))"
    by (simp add: pre_def frames sparks_drift_def)
  have same: "obstacles s' = obstacles pre" "player s' = player pre" "score s' = score pre"
    "speed s' = speed pre"
    by (simp_all add: upd collision_eq on_collision_frame)
  have hit_pre: "hit \<longleftrightarrow> (\<exists>ob\<in>set (obstacles pre). rectsOverlap (player pre) ob)"
    by (simp add: hit_def same)
  have old_pre: "old = sparks pre"
    by (simp add: old_def same pre_fields pre_sparks)
  have s'_cases: "s' = (if hit then on_collision env pre else pre)"
    by (simp add: upd collision_eq hit_pre)
  show "running s' = (if hit then False else running s)"
    by (cases hit) (simp_all add: s'_cases on_collision_frame pre_fields)
  show "best s' = (if hit \<and> Math_floor (score s') > best s then Math_floor (score s') else best s)"
    unfolding same(3)
    by (cases hit) (simp_all add: s'_cases on_collision_best pre_fields)
  show "localStorage s' =
          (if hit \<and> Math_floor (score s') > best s \<and> \<not> setItem_throws (localStorage s)
           then (localStorage s)\<lparr>items := (items (localStorage s))
                  (storageKey \<mapsto> String_of env (Math_floor (score s')))\<rparr>
           else localStorage s)"
    unfolding same(3)
    by (cases hit) (simp_all add: s'_cases on_collision_storage pre_fields)
  show "\<exists>b. sparks s' = old @ b
           \<and> length b = (if hit \<and> \<not> prefersReducedMotion env then 14 else 0)
           \<and> (\<forall>sp\<in>set b. sx sp = rx (player s') + rw (player s')
                          \<and> sy sp = ry (player s') + rh (player s') - 6)"
  proof (cases hit)
    case True
    then have "sparks s' = sparks (addSpark env (rx (player pre) + rw (player pre))
        (ry (player pre) + rh (player pre) - 6) 14 (pre\<lparr>running := False\<rparr>))"
      using hit_pre by (simp add: upd collision_eq on_collision_sparks)
    then show ?thesis
      using addSpark_sparks [of env "rx (player pre) + rw (player pre)"
          "ry (player pre) + rh (player pre) - 6" "pre\<lparr>running := False\<rparr>"] True
      by (auto simp add: old_pre same(2))
  next
    case False
    then have "sparks s' = sparks pre"
      using hit_pre by (simp add: upd collision_eq)
    then show ?thesis using False by (simp add: old_pre)
  qed
qed









lemma load_best_cases:
  "load_best env st =
     (if getItem_throws st then 0
      else case items st storageKey of
             None \<Rightarrow> 0
           | Some str \<Rightarrow> (case Number_of env str of Num r \<Rightarrow> r | _ \<Rightarrow> 0))"
  by (simp add: load_best_def getItem_def Number_conv_def Let_def
      split: option.splits jsnum.splits)

lemma init_best: "best (init env st now f) = load_best env st"
  by (simp add: init_def reset_fields)

lemma loop_stopped:
  "\<not> running s \<Longrightarrow> score (loop env now s) = score s \<and> spawnTimer (loop env now s) = spawnTimer s"
  by (simp add: loop_def draw_def Let_def)

lemma loop_score:
  "score (loop env now s)
     = (if running s \<and> started s then score s + frame_dt now (last_t s) * 60 else score s)"
  by (simp add: loop_def draw_def Let_def update_score update_not_started)

lemma loop_spawnTimer:
  "spawnTimer (loop env now s)
     = (if running s \<and> started s
        then (if spawnTimer s - frame_dt now (last_t s) \<le> 0
              then 0.75 + random env (draws s + 3 + nat (1 + \<lfloor>random env (draws s) * 3\<rfloor>))
                            * (1.35 - 0.75)
                   + max 0 ((520 - difficulty_curve (score s)) / 900)
              else spawnTimer s - frame_dt now (last_t s))
        else spawnTimer s)"
  by (simp add: loop_def draw_def Let_def update_spawnTimer update_not_started)



lemma spawnObstacle_keeps: "set (obstacles s) \<subseteq> set (obstacles (spawnObstacle env s))"
  using spawnObstacle_obstacles [of env s] by auto

lemma frame_dt_cases:
  "frame_dt now lst =
     (if now \<le> lst then 0 else if now - lst \<le> 33 then (now - lst) / 1000 else 0.033)"
  by (simp add: frame_dt_def min_def max_def)

lemma update_keeps_obstacle:
  assumes st: "started s" and mem: "ob \<in> set (obstacles s)"
    and keep: "- 30 < rx ob - speed (update env dt s) * dt + rw ob"
  shows "ob\<lparr>rx := rx ob - speed (update env dt s) * dt\<rparr> \<in> set (obstacles (update env dt s))"
proof -
  let ?mid = "(gravity env dt (s\<lparr>speed := difficulty_curve (score s)\<rparr>))
                \<lparr>spawnTimer := spawnTimer s - dt\<rparr>"
  let ?src = "if spawnTimer s - dt \<le> 0 then obstacles (spawnObstacle env ?mid) else obstacles s"
  have sp: "speed (update env dt s) = difficulty_curve (score s)"
    using st by (simp add: update_speed)
  have "obstacles ?mid = obstacles s" by (simp add: gravity_frame)
  then have "ob \<in> set ?src"
    using mem spawnObstacle_keeps [of ?mid env] by auto
  then have "ob\<lparr>rx := rx ob - difficulty_curve (score s) * dt\<rparr>
      \<in> set (map (\<lambda>ob. ob\<lparr>rx := rx ob - difficulty_curve (score s) * dt\<rparr>) ?src)"
    by (rule imageI [of ob "set ?src" "\<lambda>ob. ob\<lparr>rx := rx ob - difficulty_curve (score s) * dt\<rparr>",
          unfolded set_map [symmetric]])
  moreover have "- 30 < rx (ob\<lparr>rx := rx ob - difficulty_curve (score s) * dt\<rparr>)
      + rw (ob\<lparr>rx := rx ob - difficulty_curve (score s) * dt\<rparr>)"
    using keep by (simp add: sp)
  ultimately have "ob\<lparr>rx := rx ob - difficulty_curve (score s) * dt\<rparr>
      \<in> set (filter (\<lambda>ob. rx ob + rw ob > - 30)
          (map (\<lambda>ob. ob\<lparr>rx := rx ob - difficulty_curve (score s) * dt\<rparr>) ?src))"
    by simp
  then show ?thesis
    using st by (simp add: sp update_obstacles)
qed

lemma loop_obstacles:
  "running s \<Longrightarrow> obstacles (loop env now s)
     = obstacles (update env (frame_dt now (last_t s)) (s\<lparr>last_t := now\<rparr>))"
  "running s \<Longrightarrow> speed (loop env now s)
     = speed (update env (frame_dt now (last_t s)) (s\<lparr>last_t := now\<rparr>))"
  by (simp_all add: loop_running draw_def)


section \<open>Properties\<close>

text \<open>
  Claim C1. For all rectangles \<open>a\<close> and \<open>b\<close> the overlap test is true exactly when the four
  strict inequalities \<open>a.x < b.x + b.w\<close>, \<open>a.x + a.w > b.x\<close>, \<open>a.y < b.y + b.h\<close> and
  \<open>a.y + a.h > b.y\<close> hold, and rectangles that only share an edge, on any of the four
  sides, do not overlap.
\<close>

theorem rectsOverlap_strict:
  fixes a :: "'a rect_scheme" and b :: "'b rect_scheme"
  shows "(rectsOverlap a b \<longleftrightarrow>
            rx a < rx b + rw b \<and> rx a + rw a > rx b \<and> ry a < ry b + rh b \<and> ry a + rh a > ry b)
         \<and> (rx a + rw a = rx b \<longrightarrow> \<not> rectsOverlap a b)
         \<and> (rx a = rx b + rw b \<longrightarrow> \<not> rectsOverlap a b)
         \<and> (ry a + rh a = ry b \<longrightarrow> \<not> rectsOverlap a b)
         \<and> (ry a = ry b + rh b \<longrightarrow> \<not> rectsOverlap a b)"
  by (simp add: rectsOverlap_def)

theorem rectsOverlap_strict_witness:
  "rx \<lparr>rx = 0, ry = 0, rw = 10, rh = 10\<rparr> + rw \<lparr>rx = 0, ry = 0, rw = 10, rh = 10\<rparr>
     = rx \<lparr>rx = 10, ry = 0, rw = 5, rh = 10\<rparr>
   \<and> \<not> rectsOverlap \<lparr>rx = 0, ry = 0, rw = 10, rh = 10\<rparr> \<lparr>rx = 10, ry = 0, rw = 5, rh = 10\<rparr>
   \<and> rectsOverlap \<lparr>rx = 0, ry = 0, rw = 10, rh = 10\<rparr> \<lparr>rx = 9, ry = 9, rw = 5, rh = 10\<rparr>"
  using rectsOverlap_strict
    [of "\<lparr>rx = 0, ry = 0, rw = 10, rh = 10\<rparr>" "\<lparr>rx = 10, ry = 0, rw = 5, rh = 10\<rparr>"]
    rectsOverlap_strict
    [of "\<lparr>rx = 0, ry = 0, rw = 10, rh = 10\<rparr>" "\<lparr>rx = 9, ry = 9, rw = 5, rh = 10\<rparr>"]
  by simp




text \<open>
  Claim C3. For every player state the jump command changes nothing unless the player is
  on the ground; on the ground it sets the vertical velocity to \<open>-460\<close> and clears the
  grounded flag, so a second jump issued right after the first has no effect.
\<close>

theorem jump_only_when_grounded:
  "(\<not> onGround p \<longrightarrow> jump p = p)
   \<and> (onGround p \<longrightarrow> jump p = p\<lparr>vy := - 460, onGround := False\<rparr>)
   \<and> jump (jump p) = jump p"
  by (simp add: jump_def)

theorem jump_only_when_grounded_witness:
  "\<not> onGround player0 \<and> jump player0 = player0
   \<and> onGround (player game1) \<and> vy (jump (player game1)) = - 460
   \<and> \<not> onGround (jump (player game1))"
  using jump_only_when_grounded [of player0] jump_only_when_grounded [of "player game1"]
  by (simp add: player0_def game1_def)

text \<open>
  Claim C4. A started tick sets the speed to \<open>min(520, 260 + score * 0.9)\<close>, for the score
  at the beginning of the tick. As a function of the score this is non-decreasing and never
  above 520, and for a score that is not negative it lies between 260 and 520.
\<close>

theorem speed_is_capped_curve:
  "(started s \<longrightarrow> speed (update env dt s) = min 520 (260 + score s * 0.9))
   \<and> (s1 \<le> s2 \<longrightarrow> difficulty_curve s1 \<le> difficulty_curve s2)
   \<and> difficulty_curve s2 \<le> 520
   \<and> (0 \<le> sc \<longrightarrow> 260 \<le> difficulty_curve sc \<and> difficulty_curve sc \<le> 520)"
  by (simp add: update_speed difficulty_curve_def min_def)

theorem speed_is_capped_curve_witness:
  "started game1 \<and> speed (update env0 (1 / 60) game1) = 350.45
   \<and> (0::real) \<le> 1000 \<and> difficulty_curve 1000 = 520"
  using speed_is_capped_curve [of game1 env0 "1 / 60" 0 1000 1000]
  by (simp add: game1_def difficulty_curve_def)

text \<open>
  Claim C5. Whatever the time stamps, the delta computed by the loop is at most 1/30 s
  (the bound of the code is 0.033): it is 0 when the clock has not advanced, the elapsed
  time in seconds up to 33 ms, and 0.033 beyond, so 0.033 after a stall of 5 seconds; and
  this delta is what the simulation step receives. In one frame of a started, running
  session the obstacles move by at most 17.16. Hence an obstacle that was ahead of the
  player, and is together with the player wider than that, has not passed the player in
  the frame: for a player standing right of the removal margin, the obstacle is in the
  list after the frame, moved by speed times delta, and its right edge is still to the
  right of the player's left edge.
\<close>

theorem frame_dt_clamped:
  "frame_dt now lst \<le> 1 / 30
   \<and> frame_dt now lst
       = (if now \<le> lst then 0 else if now - lst \<le> 33 then (now - lst) / 1000 else 0.033)
   \<and> frame_dt (lst + 5000) lst = 0.033
   \<and> (running s \<longrightarrow>
        loop env now s = draw (update env (frame_dt now (last_t s)) (s\<lparr>last_t := now\<rparr>)))
   \<and> (running s \<and> started s \<longrightarrow>
        speed (loop env now s) * frame_dt now (last_t s) \<le> 17.16
        \<and> (\<forall>ob\<in>set (obstacles s).
             rx (player s) + rw (player s) \<le> rx ob \<and> 17.16 < rw (player s) + rw ob \<longrightarrow>
             rx (player (loop env now s))
               < rx ob - speed (loop env now s) * frame_dt now (last_t s) + rw ob
             \<and> (- 30 \<le> rx (player s) \<longrightarrow>
                  ob\<lparr>rx := rx ob - speed (loop env now s) * frame_dt now (last_t s)\<rparr>
                    \<in> set (obstacles (loop env now s)))))"
proof -
  have a: "frame_dt now lst \<le> 1 / 30"
    using frame_dt_bounds [of now lst] by simp
  have a': "frame_dt now lst
       = (if now \<le> lst then 0 else if now - lst \<le> 33 then (now - lst) / 1000 else 0.033)"
    by (rule frame_dt_cases)
  have b: "frame_dt (lst + 5000) lst = 0.033"
    by (simp add: frame_dt_def)
  have c: "running s \<longrightarrow>
        loop env now s = draw (update env (frame_dt now (last_t s)) (s\<lparr>last_t := now\<rparr>))"
    by (simp add: loop_running)
  have d: "speed (loop env now s) * frame_dt now (last_t s) \<le> 17.16
        \<and> (\<forall>ob\<in>set (obstacles s).
             rx (player s) + rw (player s) \<le> rx ob \<and> 17.16 < rw (player s) + rw ob \<longrightarrow>
             rx (player (loop env now s))
               < rx ob - speed (loop env now s) * frame_dt now (last_t s) + rw ob
             \<and> (- 30 \<le> rx (player s) \<longrightarrow>
                  ob\<lparr>rx := rx ob - speed (loop env now s) * frame_dt now (last_t s)\<rparr>
                    \<in> set (obstacles (loop env now s))))"
    if rs: "running s" "started s"
  proof -
    let ?dt = "frame_dt now (last_t s)"
    let ?s1 = "s\<lparr>last_t := now\<rparr>"
    have sp: "speed (loop env now s) = difficulty_curve (score s)"
      using rs by (simp add: loop_running draw_def update_speed)
    have sp1: "speed (loop env now s) = speed (update env ?dt ?s1)"
      using rs by (simp add: loop_obstacles)
    have px: "rx (player (loop env now s)) = rx (player s)"
      using rs by (simp add: loop_running draw_def update_player_box)
    have "difficulty_curve (score s) \<le> 520" by (simp add: difficulty_curve_def)
    then have disp: "speed (loop env now s) * ?dt \<le> 17.16"
      using displacement_bound [of "difficulty_curve (score s)" ?dt]
        frame_dt_bounds [of now "last_t s"] sp by simp
    have pass: "rx (player (loop env now s)) < rx ob - speed (loop env now s) * ?dt + rw ob"
      if "rx (player s) + rw (player s) \<le> rx ob" "17.16 < rw (player s) + rw ob" for ob :: obstacle
      using that disp px by simp
    have mem: "ob\<lparr>rx := rx ob - speed (loop env now s) * ?dt\<rparr> \<in> set (obstacles (loop env now s))"
      if h: "ob \<in> set (obstacles s)" "rx (player s) + rw (player s) \<le> rx ob"
        "17.16 < rw (player s) + rw ob" "- 30 \<le> rx (player s)" for ob
    proof -
      have "- 30 < rx ob - speed (update env ?dt ?s1) * ?dt + rw ob"
        using pass [OF h(2,3)] h(4) px sp1 by simp
      moreover have "started ?s1" "ob \<in> set (obstacles ?s1)" using rs h(1) by simp_all
      ultimately have "ob\<lparr>rx := rx ob - speed (update env ?dt ?s1) * ?dt\<rparr>
          \<in> set (obstacles (update env ?dt ?s1))"
        using update_keeps_obstacle [of ?s1 ob env ?dt] by blast
      then show ?thesis using rs by (simp add: loop_obstacles)
    qed
    show ?thesis using disp pass mem by blast
  qed
  show ?thesis using a a' b c d by blast
qed

theorem frame_dt_clamped_witness:
  "frame_dt 5000 (last_t game1) = 0.033
   \<and> frame_dt 16 (last_t game1) = 0.016
   \<and> running game1 \<and> started game1
   \<and> \<lparr>rx = 70, ry = 150, rw = 20, rh = 28, glyphs = []\<rparr> \<in> set (obstacles game1)
   \<and> rx (player game1) + rw (player game1) \<le> 70
   \<and> 17.16 < rw (player game1) + (20::real)
   \<and> - 30 \<le> rx (player game1)
   \<and> rx (player (loop env0 5000 game1))
        < 70 - speed (loop env0 5000 game1) * frame_dt 5000 (last_t game1) + 20
   \<and> \<lparr>rx = 70 - speed (loop env0 5000 game1) * frame_dt 5000 (last_t game1),
        ry = 150, rw = 20, rh = 28, glyphs = []\<rparr> \<in> set (obstacles (loop env0 5000 game1))"
proof -
  let ?ob = "\<lparr>rx = 70, ry = 150, rw = 20, rh = 28, glyphs = []\<rparr>"
  have g: "running game1" "started game1" "last_t game1 = 0" "obstacles game1 = [?ob]"
    "rx (player game1) = 46" "rw (player game1) = 22"
    by (simp_all add: game1_def player0_def)
  note T = frame_dt_clamped [of 5000 0 game1 env0]
  note T' = frame_dt_clamped [of 16 0 game1 env0]
  have a: "frame_dt (0 + 5000) 0 = 0.033" using T by blast
  have a': "frame_dt 16 0
       = (if (16::real) \<le> 0 then 0 else if (16::real) - 0 \<le> 33 then (16 - 0) / 1000 else 0.033)"
    using T' by blast
  have a'': "frame_dt 16 0 = 0.016" unfolding a' by simp
  have b: "\<forall>ob\<in>set (obstacles game1).
             rx (player game1) + rw (player game1) \<le> rx ob
               \<and> 17.16 < rw (player game1) + rw ob \<longrightarrow>
             rx (player (loop env0 5000 game1))
               < rx ob - speed (loop env0 5000 game1) * frame_dt 5000 (last_t game1) + rw ob
             \<and> (- 30 \<le> rx (player game1) \<longrightarrow>
                  ob\<lparr>rx := rx ob - speed (loop env0 5000 game1) * frame_dt 5000 (last_t game1)\<rparr>
                    \<in> set (obstacles (loop env0 5000 game1)))"
    using T g(1,2) by blast
  have c: "rx (player (loop env0 5000 game1))
        < 70 - speed (loop env0 5000 game1) * frame_dt 5000 (last_t game1) + 20
      \<and> \<lparr>rx = 70 - speed (loop env0 5000 game1) * frame_dt 5000 (last_t game1),
        ry = 150, rw = 20, rh = 28, glyphs = []\<rparr> \<in> set (obstacles (loop env0 5000 game1))"
    using b by (simp add: g(4,5,6))
  show ?thesis using a a'' c g by simp
qed

text \<open>
  Claim C6. From any state, \<open>restart\<close> empties the obstacle and spark lists, sets the score
  to 0, the speed to 260 and the spawn timer to 0, puts the player on the ground at
  \<open>groundY - h\<close> with no vertical velocity and the grounded flag set, and leaves the session
  started and running. The restart button and the keys \<open>r\<close> and \<open>R\<close> do exactly this.
\<close>

theorem restart_full_reset:
  "obstacles (restart env s) = [] \<and> sparks (restart env s) = []
   \<and> score (restart env s) = 0 \<and> speed (restart env s) = 260 \<and> spawnTimer (restart env s) = 0
   \<and> ry (player (restart env s)) = groundY env - rh (player (restart env s))
   \<and> vy (player (restart env s)) = 0 \<and> onGround (player (restart env s))
   \<and> started (restart env s) \<and> running (restart env s)
   \<and> handle env RestartClick s = restart env s
   \<and> handle env (KeyDown ''r'') s = restart env s
   \<and> handle env (KeyDown ''R'') s = restart env s"
  by (simp add: restart_def reset_fields reset_player keydown_def)

theorem restart_full_reset_witness:
  "obstacles game1 \<noteq> [] \<and> score game1 \<noteq> 0 \<and> obstacles (restart env0 game1) = []
   \<and> score (restart env0 game1) = 0 \<and> speed (restart env0 game1) = 260
   \<and> started (restart env0 game1) \<and> running (restart env0 game1)
   \<and> onGround (player (restart env0 game1))"
  using restart_full_reset [of env0 game1]
  by (simp add: game1_def)

text \<open>
  Claim C7. In a started tick whose spawn timer, less \<open>dt\<close>, is at most 0, however far
  below, the obstacle list at the end of the tick is the advanced old list with one new
  obstacle appended before advancing (placed at the right edge plus 10, at least 14 wide
  and 16 high, standing on the ground), so it grows by at most one; for a delta in
  \<open>[0, 0.033]\<close> the new obstacle is kept and the list of survivors grows by exactly one.
  The timer is assigned \<open>0.75 + r * (1.35 - 0.75) + max(0, (520 - speed) / 900)\<close>, where
  \<open>r\<close> is the random draw that follows those of the spawner; the old value of the timer
  does not occur in it. This is at least the base interval \<open>0.75 + r * 0.6\<close>, which lies
  in \<open>[0.75, 1.35]\<close> for a draw in \<open>[0, 1]\<close>. In a started tick whose timer stays positive
  nothing is spawned and the timer is only decremented.
\<close>

theorem spawn_at_most_one_per_tick:
  fixes env :: env and dt :: real and s :: game
  defines "s' \<equiv> update env dt s"
  defines "k \<equiv> draws s + 3 + nat (1 + \<lfloor>random env (draws s) * 3\<rfloor>)"
  defines "advance \<equiv> \<lambda>obs. filter (\<lambda>ob. rx ob + rw ob > - 30)
                             (map (\<lambda>ob. ob\<lparr>rx := rx ob - speed s' * dt\<rparr>) obs)"
  shows "(started s \<and> spawnTimer s - dt \<le> 0 \<longrightarrow>
            (\<exists>ob. obstacles s' = advance (obstacles s @ [ob])
                 \<and> rx ob = world_w env + 10 \<and> 14 \<le> rw ob \<and> 16 \<le> rh ob
                 \<and> ry ob = groundY env - rh ob
                 \<and> (0 \<le> dt \<and> dt \<le> 0.033 \<and> 0 \<le> clientWidth env \<longrightarrow>
                      obstacles s' = advance (obstacles s) @ [ob\<lparr>rx := rx ob - speed s' * dt\<rparr>]))
            \<and> length (obstacles s') \<le> length (obstacles s) + 1
            \<and> spawnTimer s' = 0.75 + random env k * (1.35 - 0.75) + max 0 ((520 - speed s') / 900)
            \<and> 0.75 + random env k * (1.35 - 0.75) \<le> spawnTimer s'
            \<and> (0 \<le> random env k \<and> random env k \<le> 1 \<longrightarrow>
                  0.75 \<le> 0.75 + random env k * (1.35 - 0.75)
                  \<and> 0.75 + random env k * (1.35 - 0.75) \<le> 1.35))
         \<and> (started s \<and> \<not> spawnTimer s - dt \<le> 0 \<longrightarrow>
              obstacles s' = advance (obstacles s) \<and> spawnTimer s' = spawnTimer s - dt)"
proof -
  have A: "(\<exists>ob. obstacles s' = advance (obstacles s @ [ob])
                 \<and> rx ob = world_w env + 10 \<and> 14 \<le> rw ob \<and> 16 \<le> rh ob
                 \<and> ry ob = groundY env - rh ob
                 \<and> (0 \<le> dt \<and> dt \<le> 0.033 \<and> 0 \<le> clientWidth env \<longrightarrow>
                      obstacles s' = advance (obstacles s) @ [ob\<lparr>rx := rx ob - speed s' * dt\<rparr>]))
            \<and> length (obstacles s') \<le> length (obstacles s) + 1
            \<and> spawnTimer s' = 0.75 + random env k * (1.35 - 0.75) + max 0 ((520 - speed s') / 900)
            \<and> 0.75 + random env k * (1.35 - 0.75) \<le> spawnTimer s'"
    if h: "started s" "spawnTimer s - dt \<le> 0"
  proof -
    let ?mid = "(gravity env dt (s\<lparr>speed := difficulty_curve (score s)\<rparr>))
                  \<lparr>spawnTimer := spawnTimer s - dt\<rparr>"
    have sp: "speed s' = difficulty_curve (score s)"
      using h(1) by (simp add: s'_def update_speed)
    have obs: "obstacles s' = advance (obstacles (spawnObstacle env ?mid))"
      using h by (simp add: s'_def advance_def update_obstacles update_speed)
    obtain ob where ob: "obstacles (spawnObstacle env ?mid) = obstacles ?mid @ [ob]"
      "rx ob = world_w env + 10" "14 \<le> rw ob" "16 \<le> rh ob" "ry ob = groundY env - rh ob"
      using spawnObstacle_obstacles [of env ?mid] by blast
    have mid: "obstacles ?mid = obstacles s" by (simp add: gravity_frame)
    have e1: "obstacles s' = advance (obstacles s @ [ob])"
      by (simp add: obs ob(1) mid)
    have e2: "obstacles s' = advance (obstacles s) @ [ob\<lparr>rx := rx ob - speed s' * dt\<rparr>]"
      if b: "0 \<le> dt" "dt \<le> 0.033" "0 \<le> clientWidth env"
    proof -
      have "speed s' \<le> 520" by (simp add: sp difficulty_curve_def)
      then have d: "speed s' * dt \<le> 17.16"
        using displacement_bound [of "speed s'" dt] b by simp
      have "0 \<le> world_w env" using b(3) by (simp add: world_w_def)
      then have "- 30 < rx ob - speed s' * dt + rw ob"
        using d ob(2,3) by simp
      then show ?thesis by (simp add: e1 advance_def)
    qed
    have len: "length (obstacles s') \<le> length (obstacles s) + 1"
    proof -
      have "length (obstacles s') \<le> length (map (\<lambda>ob. ob\<lparr>rx := rx ob - speed s' * dt\<rparr>)
          (obstacles s @ [ob]))"
        unfolding e1 advance_def by (rule length_filter_le)
      then show ?thesis by simp
    qed
    have tm: "spawnTimer s' = 0.75 + random env k * (1.35 - 0.75)
        + max 0 ((520 - speed s') / 900)"
      using h by (simp add: s'_def k_def update_spawnTimer update_speed)
    have lb: "0.75 + random env k * (1.35 - 0.75) \<le> spawnTimer s'"
      unfolding tm by simp
    show ?thesis using e1 e2 ob(2-5) len tm lb by blast
  qed
  have B: "0 \<le> random env k \<and> random env k \<le> 1 \<longrightarrow>
                  0.75 \<le> 0.75 + random env k * (1.35 - 0.75)
                  \<and> 0.75 + random env k * (1.35 - 0.75) \<le> 1.35"
    by simp
  have C: "obstacles s' = advance (obstacles s) \<and> spawnTimer s' = spawnTimer s - dt"
    if h: "started s" "\<not> spawnTimer s - dt \<le> 0"
    using h by (simp add: s'_def advance_def update_obstacles update_speed update_spawnTimer)
  show ?thesis using A B C by blast
qed

theorem spawn_at_most_one_per_tick_witness:
  "started (game1\<lparr>spawnTimer := 0.01\<rparr>)
   \<and> spawnTimer (game1\<lparr>spawnTimer := 0.01\<rparr>) - 2 / 125 \<le> 0
   \<and> (0::real) \<le> 2 / 125 \<and> (2::real) / 125 \<le> 0.033 \<and> 0 \<le> clientWidth env0
   \<and> length (obstacles (game1\<lparr>spawnTimer := 0.01\<rparr>)) = 1
   \<and> length (obstacles (update env0 (2 / 125) (game1\<lparr>spawnTimer := 0.01\<rparr>))) = 2
   \<and> 0.75 \<le> spawnTimer (update env0 (2 / 125) (game1\<lparr>spawnTimer := 0.01\<rparr>))
   \<and> started game1 \<and> \<not> spawnTimer game1 - 2 / 125 \<le> 0
   \<and> length (obstacles (update env0 (2 / 125) game1)) = 1
   \<and> spawnTimer (update env0 (2 / 125) game1) = 0.484"
proof -
  let ?g = "game1\<lparr>spawnTimer := 0.01\<rparr>"
  let ?adv = "\<lambda>s obs. filter (\<lambda>ob. rx ob + rw ob > - 30)
      (map (\<lambda>ob. ob\<lparr>rx := rx ob - speed (update env0 (2 / 125) s) * (2 / 125)\<rparr>) obs)"
  have g: "started ?g" "spawnTimer ?g - 2 / 125 \<le> 0" "started game1"
    "\<not> spawnTimer game1 - 2 / 125 \<le> 0" "length (obstacles ?g) = 1"
    by (simp_all add: game1_def)
  have e: "(0::real) \<le> 2 / 125" "(2::real) / 125 \<le> 0.033" "0 \<le> clientWidth env0"
    "0 \<le> random env0 (draws ?g + 3 + nat (1 + \<lfloor>random env0 (draws ?g) * 3\<rfloor>))"
    by (simp_all add: env0_def)
  note T1 = spawn_at_most_one_per_tick [of ?g "2 / 125" env0]
  note T2 = spawn_at_most_one_per_tick [of game1 "2 / 125" env0]
  have adv: "length (?adv ?g (obstacles ?g)) = 1" "length (?adv game1 (obstacles game1)) = 1"
    by (simp_all add: update_speed g(1,3)) (simp_all add: game1_def difficulty_curve_def)
  obtain ob where "obstacles (update env0 (2 / 125) ?g)
      = ?adv ?g (obstacles ?g) @ [ob\<lparr>rx := rx ob - speed (update env0 (2 / 125) ?g) * (2 / 125)\<rparr>]"
    using T1 g(1,2) e(1,2,3) by blast
  then have w1: "length (obstacles (update env0 (2 / 125) ?g)) = 2"
    using adv(1) by simp
  have w2: "0.75 \<le> spawnTimer (update env0 (2 / 125) ?g)"
  proof -
    have "0.75 + random env0 (draws ?g + 3 + nat (1 + \<lfloor>random env0 (draws ?g) * 3\<rfloor>))
            * (1.35 - 0.75) \<le> spawnTimer (update env0 (2 / 125) ?g)"
      using T1 g(1,2) by blast
    then show ?thesis using e(4) by simp
  qed
  have "obstacles (update env0 (2 / 125) game1) = ?adv game1 (obstacles game1)"
    using T2 g(3,4) by blast
  then have w3: "length (obstacles (update env0 (2 / 125) game1)) = 1"
    using adv(2) by simp
  have "spawnTimer (update env0 (2 / 125) game1) = spawnTimer game1 - 2 / 125"
    using T2 g(3,4) by blast
  then have w4: "spawnTimer (update env0 (2 / 125) game1) = 0.484"
    by (simp add: game1_def)
  show ?thesis using g e(1,2,3) w1 w2 w3 w4 by blast
qed

text \<open>
  Claim C8. \<open>measureEmoji\<close> leaves the context with the font it found. A reported ascent
  that is not a finite number is replaced by \<open>0.78 * size\<close>, a reported descent that is not
  a finite number by \<open>0.22 * size\<close>, each on its own; the returned width and height are at
  least 1, the height being the sum of ascent and descent when that is larger.
\<close>

theorem measureEmoji_scoped_font_and_fallback:
  "snd (measureEmoji env e px f) = f
   \<and> (\<not> Number_isFinite
          (actualBoundingBoxAscent (measureText env (String_of env px @ ''px '' @ EMOJI_FONT_STACK) e))
        \<longrightarrow> m_ascent (fst (measureEmoji env e px f)) = px * 0.78)
   \<and> (\<not> Number_isFinite
          (actualBoundingBoxDescent (measureText env (String_of env px @ ''px '' @ EMOJI_FONT_STACK) e))
        \<longrightarrow> m_descent (fst (measureEmoji env e px f)) = px * 0.22)
   \<and> 1 \<le> m_w (fst (measureEmoji env e px f))
   \<and> 1 \<le> m_h (fst (measureEmoji env e px f))
   \<and> m_h (fst (measureEmoji env e px f))
       = max 1 (m_ascent (fst (measureEmoji env e px f)) + m_descent (fst (measureEmoji env e px f)))"
  by (simp add: measureEmoji_def Let_def split: jsnum.splits)

theorem measureEmoji_scoped_font_and_fallback_witness:
  "\<not> Number_isFinite
       (actualBoundingBoxDescent
          (measureText env0 (String_of env0 30 @ ''px '' @ EMOJI_FONT_STACK) CACTUS_EMOJI))
   \<and> measureEmoji env0 CACTUS_EMOJI 30 ''10px sans-serif''
       = (\<lparr>m_w = 20, m_h = 22.6, m_ascent = 16, m_descent = 6.6\<rparr>, ''10px sans-serif'')"
  using measureEmoji_scoped_font_and_fallback [of env0 CACTUS_EMOJI 30 "''10px sans-serif''"]
  by (simp add: measureEmoji_def env0_def Let_def)

text \<open>
  Claim C9. The best score at startup is the one read from the store, and reading gives 0
  when the store throws, when the key is missing, and when the stored string converts to
  something that is not a finite number (\<open>NaN\<close> for a string that does not parse). When
  the store refuses writes, a started tick still returns a state: the store is unchanged
  and the best score in memory is the new record if the tick set one, the previous best
  otherwise. \<open>update\<close> and \<open>load_best\<close> return plain values, so no failure of the store
  reaches their caller.
\<close>

theorem persistence_failures_swallowed:
  fixes env :: env and dt :: real and s :: game
  defines "s' \<equiv> update env dt s"
  defines "hit \<equiv> \<exists>ob\<in>set (obstacles s'). rectsOverlap (player s') ob"
  shows "best (init env st now f) = load_best env st
         \<and> (getItem_throws st \<longrightarrow> load_best env st = 0)
         \<and> (\<not> getItem_throws st \<and> items st storageKey = None \<longrightarrow> load_best env st = 0)
         \<and> (\<not> getItem_throws st \<and> items st storageKey = Some str
               \<and> \<not> Number_isFinite (Number_of env str) \<longrightarrow> load_best env st = 0)
         \<and> (started s \<and> setItem_throws (localStorage s) \<longrightarrow>
               localStorage s' = localStorage s
               \<and> best s' = (if hit \<and> Math_floor (score s') > best s
                            then Math_floor (score s') else best s))"
proof -
  have a: "getItem_throws st \<longrightarrow> load_best env st = 0"
    by (simp add: load_best_cases)
  have b: "\<not> getItem_throws st \<and> items st storageKey = None \<longrightarrow> load_best env st = 0"
    by (simp add: load_best_cases)
  have c: "\<not> getItem_throws st \<and> items st storageKey = Some str
               \<and> \<not> Number_isFinite (Number_of env str) \<longrightarrow> load_best env st = 0"
    by (cases "Number_of env str") (simp_all add: load_best_cases)
  have d: "localStorage s' = localStorage s
               \<and> best s' = (if hit \<and> Math_floor (score s') > best s
                            then Math_floor (score s') else best s)"
    if h: "started s" "setItem_throws (localStorage s)"
  proof -
    note o = update_outcome [OF h(1), of env dt, folded s'_def, folded hit_def]
    show ?thesis using o(2) o(3) h(2) by simp
  qed
  show ?thesis using a b c d init_best [of env st now f] by blast
qed

theorem persistence_failures_swallowed_witness:
  "getItem_throws storage_denied \<and> load_best env0 storage_denied = 0
   \<and> \<not> getItem_throws (storage0\<lparr>items := Map.empty\<rparr>)
   \<and> items (storage0\<lparr>items := Map.empty\<rparr>) storageKey = None
   \<and> load_best env0 (storage0\<lparr>items := Map.empty\<rparr>) = 0
   \<and> items (storage0\<lparr>items := [storageKey \<mapsto> ''4x'']\<rparr>) storageKey = Some ''4x''
   \<and> \<not> Number_isFinite (Number_of env0 ''4x'')
   \<and> load_best env0 (storage0\<lparr>items := [storageKey \<mapsto> ''4x'']\<rparr>) = 0
   \<and> started (game1\<lparr>localStorage := storage_denied\<rparr>)
   \<and> setItem_throws (localStorage (game1\<lparr>localStorage := storage_denied\<rparr>))
   \<and> localStorage (update env0 (2 / 125) (game1\<lparr>localStorage := storage_denied\<rparr>))
        = storage_denied"
proof -
  have n: "\<not> Number_isFinite (Number_of env0 ''4x'')"
    by (simp add: env0_def Number_decimal_def)
  have g: "started (game1\<lparr>localStorage := storage_denied\<rparr>)"
    "setItem_throws (localStorage (game1\<lparr>localStorage := storage_denied\<rparr>))"
    by (simp_all add: game1_def storage_denied_def)
  have s: "getItem_throws storage_denied" "\<not> getItem_throws (storage0\<lparr>items := Map.empty\<rparr>)"
    by (simp_all add: storage_denied_def storage0_def)
  show ?thesis
    using persistence_failures_swallowed [of env0 storage_denied 0 "[]" "''4x''"
        "game1\<lparr>localStorage := storage_denied\<rparr>" "2 / 125"]
      persistence_failures_swallowed [of env0 "storage0\<lparr>items := Map.empty\<rparr>" 0 "[]" "''4x''"
        game1 "2 / 125"]
      persistence_failures_swallowed [of env0 "storage0\<lparr>items := [storageKey \<mapsto> ''4x'']\<rparr>" 0 "[]"
        "''4x''" game1 "2 / 125"]
      n g s
    by simp
qed

text \<open>
  Claim C10 says that a tick never increases the spawn timer. A tick that spawns assigns
  the timer a fresh interval, which is larger than the value the timer had: in the sample
  session with the timer at 0.01, a frame 16 ms later leaves it above 0.01.
\<close>

theorem spawn_timer_increase_counterexample:
  "spawnTimer (game1\<lparr>spawnTimer := 0.01\<rparr>)
     < spawnTimer (loop env0 16 (game1\<lparr>spawnTimer := 0.01\<rparr>))"
  by (simp add: loop_spawnTimer)
     (simp add: game1_def frame_dt_def env0_def difficulty_curve_def)

text \<open>
  Claim C10, amended. The delta of a frame is never negative, also when the visibility
  handler has moved the reference time past the next frame's time stamp (the delta is
  then 0), and it is this delta that the simulation step receives. A frame never
  decreases the score. A frame never increases the spawn timer, except a frame of a
  started, running session in which the timer less the delta is at most 0: there an
  obstacle is spawned and the timer is assigned a fresh interval, at least 0.75 for a
  random draw that is not negative.
\<close>

theorem tick_dt_never_negative:
  "0 \<le> frame_dt now lst
   \<and> (now \<le> t \<longrightarrow> frame_dt now (last_t (visibilitychange t s)) = 0)
   \<and> (running s \<longrightarrow>
        loop env now s = draw (update env (frame_dt now (last_t s)) (s\<lparr>last_t := now\<rparr>)))
   \<and> score s \<le> score (loop env now s)
   \<and> (\<not> (running s \<and> started s \<and> spawnTimer s - frame_dt now (last_t s) \<le> 0) \<longrightarrow>
        spawnTimer (loop env now s) \<le> spawnTimer s)
   \<and> (running s \<and> started s \<and> spawnTimer s - frame_dt now (last_t s) \<le> 0
        \<and> 0 \<le> random env (draws s + 3 + nat (1 + \<lfloor>random env (draws s) * 3\<rfloor>)) \<longrightarrow>
        0.75 \<le> spawnTimer (loop env now s))"
proof -
  have a: "0 \<le> frame_dt now lst" for lst
    by (simp add: frame_dt_def)
  have b: "now \<le> t \<longrightarrow> frame_dt now (last_t (visibilitychange t s)) = 0"
    by (simp add: frame_dt_def visibilitychange_def)
  have c: "running s \<longrightarrow>
        loop env now s = draw (update env (frame_dt now (last_t s)) (s\<lparr>last_t := now\<rparr>))"
    by (simp add: loop_running)
  have d: "score s \<le> score (loop env now s)"
    using a [of "last_t s"] by (simp add: loop_score)
  have e: "\<not> (running s \<and> started s \<and> spawnTimer s - frame_dt now (last_t s) \<le> 0) \<longrightarrow>
        spawnTimer (loop env now s) \<le> spawnTimer s"
    using a [of "last_t s"] by (simp add: loop_spawnTimer)
  have f: "running s \<and> started s \<and> spawnTimer s - frame_dt now (last_t s) \<le> 0
        \<and> 0 \<le> random env (draws s + 3 + nat (1 + \<lfloor>random env (draws s) * 3\<rfloor>)) \<longrightarrow>
        0.75 \<le> spawnTimer (loop env now s)"
    by (simp add: loop_spawnTimer add_nonneg_nonneg)
  show ?thesis using a [of lst] b c d e f by blast
qed

theorem tick_dt_never_negative_witness:
  "(10::real) \<le> 20
   \<and> frame_dt 10 (last_t (visibilitychange 20 game1)) = 0
   \<and> running game1 \<and> started game1 \<and> \<not> spawnTimer game1 - frame_dt 16 (last_t game1) \<le> 0
   \<and> score game1 \<le> score (loop env0 16 game1)
   \<and> spawnTimer (loop env0 16 game1) \<le> spawnTimer game1
   \<and> spawnTimer (game1\<lparr>spawnTimer := 0.01\<rparr>) - frame_dt 16 (last_t (game1\<lparr>spawnTimer := 0.01\<rparr>)) \<le> 0
   \<and> 0.75 \<le> spawnTimer (loop env0 16 (game1\<lparr>spawnTimer := 0.01\<rparr>))"
proof -
  let ?g = "game1\<lparr>spawnTimer := 0.01\<rparr>"
  have g: "running game1" "started game1" "running ?g" "started ?g"
    by (simp_all add: game1_def)
  have le: "(10::real) \<le> 20" by simp
  have h1: "\<not> spawnTimer game1 - frame_dt 16 (last_t game1) \<le> 0"
    by (simp add: game1_def frame_dt_def)
  have h2: "spawnTimer ?g - frame_dt 16 (last_t ?g) \<le> 0"
    by (simp add: game1_def frame_dt_def)
  have h3: "0 \<le> random env0 (draws ?g + 3 + nat (1 + \<lfloor>random env0 (draws ?g) * 3\<rfloor>))"
    by (simp add: env0_def)
  note T1 = tick_dt_never_negative [of 10 0 20 game1 env0]
  note T2 = tick_dt_never_negative [of 16 0 20 game1 env0]
  note T3 = tick_dt_never_negative [of 16 0 20 ?g env0]
  have w1: "frame_dt 10 (last_t (visibilitychange 20 game1)) = 0" using T1 le by blast
  have w2: "score game1 \<le> score (loop env0 16 game1)" using T2 by blast
  have w3: "spawnTimer (loop env0 16 game1) \<le> spawnTimer game1" using T2 h1 by blast
  have w4: "0.75 \<le> spawnTimer (loop env0 16 ?g)" using T3 g(3,4) h2 h3 by blast
  show ?thesis using le w1 g(1,2) h1 w2 w3 h2 w4 by blast
qed

end
